theory Spec2Isabelle
  imports Complex_Main "HOL-Library.Sublist"
begin

section \<open>Python values used by app.py\<close>

text \<open>
  A Python \<open>str\<close> is a sequence of Unicode code points and \<open>len\<close> counts code points,
  so a string is a list of code points here. The literals of the source are ASCII; \<open>lit\<close>
  turns such a literal into its code points.
\<close>

type_synonym pystr = "nat list"

definition lit :: "string \<Rightarrow> pystr" where
  "lit s = map of_char s"

text \<open>
  A value of \<open>exc\<close> is what a \<open>raise\<close> carries: the name of its class and \<open>str(e)\<close>. \<open>Exc\<close>
  is an instance of \<open>Exception\<close>; \<open>BaseExc\<close> is an instance of a class that does not derive
  from \<open>Exception\<close> (\<open>KeyboardInterrupt\<close>, \<open>SystemExit\<close>, \<open>GeneratorExit\<close>). Every handler of
  the source is \<open>except Exception as e\<close>: it catches the first kind and lets the second
  pass. A function of the source returns \<open>exc + 'a\<close>, \<open>Inl\<close> when the exception leaves it.
\<close>

datatype exc =
    is_Exception: Exc (exc_class: string) (exc_str: pystr)
  | BaseExc (exc_class: string) (exc_str: pystr)

subsection \<open>Floats\<close>

text \<open>
  A Python \<open>float\<close> is an IEEE 754 binary64 number: a finite value (a rational
  \<open>m * 2 ^ e\<close> with \<open>\<bar>m\<bar> < 2 ^ 53\<close> and \<open>- 1074 \<le> e\<close>), an infinity or NaN. The sign of
  zero is not kept: \<open>-0.0 == 0.0\<close> in Python.
\<close>

datatype pyfloat = Fin rat | PosInf | NegInf | NaN

text \<open>Rounding of a non-negative rational to the nearest integer, ties to even.\<close>

definition rne :: "rat \<Rightarrow> int" where
  "rne y = (let f = \<lfloor>y\<rfloor>; d = y - of_int f in
            if d < 1 / 2 then f
            else if 1 / 2 < d then f + 1
            else if even f then f else f + 1)"

text \<open>
  The exponent of the binade of \<open>a > 0\<close>, searched upwards from \<open>e\<close>: the least \<open>e' \<ge> e\<close>
  with \<open>a < 2 ^ (e' + 1)\<close>. From \<open>- 1022\<close> it is \<open>max \<lfloor>log\<^sub>2 a\<rfloor> (- 1022)\<close>: the subnormal
  numbers share the exponent of the least normal binade.
\<close>

function binade_from :: "rat \<Rightarrow> int \<Rightarrow> int" where
  "binade_from a e = (if a < 2 powi (e + 1) then e else binade_from a (e + 1))"
  by pat_completeness auto

lemma int_less_two_powi: "(of_int e :: rat) < 2 powi (e + 1)"
proof (cases "0 \<le> e")
  case True
  have "int (nat e) < 2 ^ nat e"
    by (rule of_nat_less_two_power)
  also have "\<dots> \<le> 2 ^ nat (e + 1)"
    by (rule power_increasing) auto
  finally have "e < 2 ^ nat (e + 1)"
    using True by simp
  then have "(of_int e :: rat) < of_int (2 ^ nat (e + 1))"
    by (simp only: of_int_less_iff)
  then show ?thesis
    using True by (simp add: power_int_def)
next
  case False
  have "(0 :: rat) < 2 powi (e + 1)"
    by (rule zero_less_power_int) simp
  moreover have "(of_int e :: rat) < 0"
    using False by simp
  ultimately show ?thesis
    by linarith
qed

termination binade_from
proof (relation "measure (\<lambda>(a, e). nat (\<lceil>a\<rceil> - e))")
  show "wf (measure (\<lambda>(a :: rat, e :: int). nat (\<lceil>a\<rceil> - e)))"
    by simp
next
  fix a :: rat and e :: int
  assume "\<not> a < 2 powi (e + 1)"
  then have "of_int e < a"
    using int_less_two_powi [of e] by linarith
  then have "e < \<lceil>a\<rceil>"
    by (simp add: less_ceiling_iff)
  then show "((a, e + 1), (a, e)) \<in> measure (\<lambda>(a, e). nat (\<lceil>a\<rceil> - e))"
    by simp
qed

declare binade_from.simps [simp del]

definition binade :: "rat \<Rightarrow> int" where
  "binade a = binade_from a (- 1022)"

text \<open>
  \<open>fl q\<close> is the float nearest to the rational \<open>q\<close>, ties to the even significand: the
  rounding that every correctly rounded operation applies to its exact result. A result
  of magnitude \<open>2 ^ 1024\<close> or more overflows to an infinity.
\<close>

definition fl :: "rat \<Rightarrow> pyfloat" where
  "fl q = (if q = 0 then Fin 0
           else let a = \<bar>q\<bar>; u = 2 powi (binade a - 52); r = of_int (rne (a / u)) * u in
             if 2 ^ 1024 \<le> r then (if 0 < q then PosInf else NegInf)
             else Fin (if 0 < q then r else - r))"

text \<open>\<open>x * y\<close> on floats.\<close>

fun float_mul :: "pyfloat \<Rightarrow> pyfloat \<Rightarrow> pyfloat" where
  "float_mul (Fin a) (Fin b) = fl (a * b)"
| "float_mul NaN _ = NaN"
| "float_mul _ NaN = NaN"
| "float_mul (Fin a) PosInf = (if a = 0 then NaN else if 0 < a then PosInf else NegInf)"
| "float_mul (Fin a) NegInf = (if a = 0 then NaN else if 0 < a then NegInf else PosInf)"
| "float_mul PosInf (Fin b) = (if b = 0 then NaN else if 0 < b then PosInf else NegInf)"
| "float_mul NegInf (Fin b) = (if b = 0 then NaN else if 0 < b then NegInf else PosInf)"
| "float_mul PosInf PosInf = PosInf"
| "float_mul PosInf NegInf = NegInf"
| "float_mul NegInf PosInf = NegInf"
| "float_mul NegInf NegInf = PosInf"

text \<open>
  \<open>round(x, 2)\<close> on a float: CPython rounds the exact value of \<open>x\<close> to two decimal places,
  ties to even, and returns the float nearest to that decimal; an infinity or NaN is
  returned as it is.
\<close>

fun round2 :: "pyfloat \<Rightarrow> pyfloat" where
  "round2 (Fin q) = fl (of_int (if 0 \<le> q then rne (q * 100) else - rne (- q * 100)) / 100)"
| "round2 x = x"

text \<open>The numbers of the source: \<open>confidence\<close> is the \<open>int\<close> 0 or a rounded \<open>float\<close>.\<close>

datatype pynum = PyInt int | PyFloat pyfloat

section \<open>The Answering Engine: \<open>answer_question\<close>\<close>

text \<open>
  The model handle is an external callable. What it returns may depend on the calls made
  to it before, so it is a function of the log of those calls (question and context of
  each) and of the arguments of this call. It returns a structure with \<open>answer\<close> and
  \<open>score\<close>, or raises.
\<close>

record model_output =
  m_answer :: pystr
  m_score :: pyfloat

type_synonym call = "pystr \<times> pystr"

type_synonym qa_model = "call list \<Rightarrow> pystr \<Rightarrow> pystr \<Rightarrow> exc + model_output"

record qa_result =
  answer :: pystr
  confidence :: pynum

text \<open>
  \<open>answer_question(question, context, qa_model)\<close>, lines 52 to 84. The log of the calls
  made to the model is passed in and returned extended. The handler of line 80 catches an
  instance of \<open>Exception\<close>; any other raise leaves the function.
\<close>

definition answer_question ::
  "pystr \<Rightarrow> pystr \<Rightarrow> qa_model \<Rightarrow> call list \<Rightarrow> (exc + qa_result) \<times> call list" where
  "answer_question question context qa_model calls =
     (let max_length = 512 * 3;
          context = (if length context > max_length then take max_length context else context)
      in case qa_model calls question context of
           Inr result \<Rightarrow>
             (Inr \<lparr>answer = m_answer result,
                   confidence = PyFloat (round2 (float_mul (m_score result) (Fin 100)))\<rparr>,
              calls @ [(question, context)])
         | Inl e \<Rightarrow>
             if is_Exception e then
               (Inr \<lparr>answer = lit ''Error: '' @ exc_str e, confidence = PyInt 0\<rparr>,
                calls @ [(question, context)])
             else (Inl e, calls @ [(question, context)]))"

section \<open>The Text Extractor: \<open>extract__text_from_pdf\<close>\<close>

text \<open>
  PyPDF2 is an external library. The operations the source uses are parameters: opening
  a reader on the file, \<open>len(pdf_reader.pages)\<close>, \<open>pdf_reader.pages[page_num]\<close> and
  \<open>page.extract_text()\<close>; each returns or raises.
\<close>

record ('f, 'r, 'p) pypdf2 =
  PdfReader :: "'f \<Rightarrow> exc + 'r"
  pages_len :: "'r \<Rightarrow> exc + nat"
  pages_getitem :: "'r \<Rightarrow> nat \<Rightarrow> exc + 'p"
  extract_text :: "'p \<Rightarrow> exc + pystr"

text \<open>
  The loop of lines 22 to 25 over \<open>range(len(pdf_reader.pages))\<close>, with the text read so
  far; an exception of either step ends it.
\<close>

fun extract_pages :: "('f, 'r, 'p) pypdf2 \<Rightarrow> 'r \<Rightarrow> nat list \<Rightarrow> pystr \<Rightarrow> exc + pystr" where
  "extract_pages lib pdf_reader [] text = Inr text"
| "extract_pages lib pdf_reader (page_num # rest) text =
     (case pages_getitem lib pdf_reader page_num of
        Inl e \<Rightarrow> Inl e
      | Inr page \<Rightarrow>
          (case extract_text lib page of
             Inl e \<Rightarrow> Inl e
           | Inr t \<Rightarrow> extract_pages lib pdf_reader rest (text @ t)))"

text \<open>
  \<open>extract__text_from_pdf(pdf_file)\<close>, lines 6 to 30: the \<open>try\<close> body and its handler, which
  catches an instance of \<open>Exception\<close> (line 28).
\<close>

definition extract__text_from_pdf :: "('f, 'r, 'p) pypdf2 \<Rightarrow> 'f \<Rightarrow> exc + pystr" where
  "extract__text_from_pdf lib pdf_file =
     (case (case PdfReader lib pdf_file of
              Inl e \<Rightarrow> Inl e
            | Inr pdf_reader \<Rightarrow>
                (case pages_len lib pdf_reader of
                   Inl e \<Rightarrow> Inl e
                 | Inr n \<Rightarrow> extract_pages lib pdf_reader [0..<n] [])) of
        Inr text \<Rightarrow> Inr text
      | Inl e \<Rightarrow>
          if is_Exception e then Inr (lit ''Error extracting text: '' @ exc_str e)
          else Inl e)"


section \<open>Loading the model: \<open>load_qa_model\<close>\<close>

text \<open>
  \<open>load_qa_model()\<close>, lines 34 to 49. \<open>pipeline\<close> of the transformers library is a
  parameter, applied to the task and to the keyword arguments \<open>model\<close> and \<open>tokenizer\<close>.
  \<open>st.cache_resource\<close> keeps the first result for later calls; \<open>pipeline\<close> is a function
  here, so a later call gives the same value.
\<close>

definition load_qa_model :: "(pystr \<Rightarrow> pystr \<Rightarrow> pystr \<Rightarrow> exc + 'm) \<Rightarrow> exc + 'm" where
  "load_qa_model pipeline =
     pipeline (lit ''question-answering'')
       (lit ''distilbert-base-ucased-distilled-squad'')
       (lit ''distilbert-base-uncased-distilled-squad'')"

section \<open>The Presentation Shell: \<open>main\<close>\<close>

subsection \<open>Names of the module\<close>

text \<open>
  A call in \<open>main\<close> looks its function up by name in the globals of the module when it
  runs. The module binds four names by \<open>import\<close> and four by \<open>def\<close>; a name that is not
  bound raises \<open>NameError\<close>.
\<close>

datatype global =
    Imported
  | Def_extract__text_from_pdf
  | Def_load_qa_model
  | Def_answer_question
  | Def_main

definition module_globals :: "(string \<times> global) list" where
  "module_globals =
     [(''PyPDF2'', Imported), (''pipeline'', Imported), (''st'', Imported), (''io'', Imported),
      (''extract__text_from_pdf'', Def_extract__text_from_pdf),
      (''load_qa_model'', Def_load_qa_model),
      (''answer_question'', Def_answer_question),
      (''main'', Def_main)]"

definition lookup_global :: "string \<Rightarrow> exc + global" where
  "lookup_global name =
     (case map_of module_globals name of
        Some g \<Rightarrow> Inr g
      | None \<Rightarrow> Inl (Exc ''NameError'' (lit ''name '' @ [39] @ lit name @ [39] @ lit '' is not defined'')))"

text \<open>
  Calling what a name is bound to. A call with the wrong callee raises \<open>TypeError\<close>; its
  message is not modelled.
\<close>

definition call_extractor ::
  "global \<Rightarrow> ('f, 'r, 'p) pypdf2 \<Rightarrow> 'f \<Rightarrow> exc + pystr" where
  "call_extractor g lib pdf_file =
     (if g = Def_extract__text_from_pdf then extract__text_from_pdf lib pdf_file
      else Inl (Exc ''TypeError'' []))"

definition call_loader ::
  "global \<Rightarrow> (pystr \<Rightarrow> pystr \<Rightarrow> pystr \<Rightarrow> exc + 'm) \<Rightarrow> exc + 'm" where
  "call_loader g pipeline =
     (if g = Def_load_qa_model then load_qa_model pipeline
      else Inl (Exc ''TypeError'' []))"

definition call_answerer ::
  "global \<Rightarrow> pystr \<Rightarrow> pystr \<Rightarrow> qa_model \<Rightarrow> call list \<Rightarrow> (exc + qa_result) \<times> call list" where
  "call_answerer g question context qa_model calls =
     (if g = Def_answer_question then answer_question question context qa_model calls
      else (Inl (Exc ''TypeError'' []), calls))"

subsection \<open>Widgets, session state and screen\<close>

text \<open>
  One run of the script reads the widgets: the uploaded file, if any, with its name and
  size, the text of the question input and whether the button was pressed in this run.
\<close>

record 'f uploaded =
  up_name :: pystr
  up_size :: nat
  up_file :: 'f

record 'f widgets =
  uploaded_file :: "'f uploaded option"
  user_question :: pystr
  button :: bool

text \<open>
  What the \<open>st\<close> calls put on the screen. An f-string that formats a number is kept as an
  element with the number: the file details (size in bytes, shown divided by 1024), the
  confidence caption and the numbered question of a history entry.
\<close>

datatype ui =
    Title pystr
  | Header pystr
  | Subheader pystr
  | Markdown pystr
  | Success pystr
  | Info pystr
  | Warning pystr
  | Json_file_details pystr nat
  | Text_area pystr pystr
  | Caption_confidence pynum
  | Markdown_Q int pystr
  | Markdown_A pystr

text \<open>
  An entry of \<open>st.session_state.history\<close> is a dict with the keys \<open>question\<close> and \<open>answer\<close>;
  the answer may be \<open>None\<close>. The session state has the keys \<open>history\<close> and
  \<open>last_question\<close>, each absent until it is first assigned.
\<close>

record entry =
  h_question :: pystr
  h_answer :: "pystr option"

record world =
  history :: "entry list option"
  last_question :: "pystr option"
  screen :: "ui list"
  model_calls :: "call list"

definition render :: "ui list \<Rightarrow> world \<Rightarrow> world" where
  "render out w = w\<lparr>screen := screen w @ out\<rparr>"

text \<open>Sequencing of two parts of a run: an exception of the first skips the second.\<close>

definition and_then ::
  "(exc + unit) \<times> world \<Rightarrow> (world \<Rightarrow> (exc + unit) \<times> world) \<Rightarrow> (exc + unit) \<times> world" where
  "and_then r k = (case r of (Inl e, w) \<Rightarrow> (Inl e, w) | (Inr u, w) \<Rightarrow> k w)"

subsection \<open>The answer button, lines 150 to 162\<close>

definition answer_button ::
  "bool \<Rightarrow> pystr \<Rightarrow> pystr \<Rightarrow> qa_model \<Rightarrow> world \<Rightarrow> (exc + unit) \<times> world" where
  "answer_button pressed question pdf_text qa_model w =
     (if pressed then
        if question \<noteq> [] then
          (case lookup_global ''answer_question'' of
             Inl e \<Rightarrow> (Inl e, w)
           | Inr g \<Rightarrow>
               (case call_answerer g question pdf_text qa_model (model_calls w) of
                  (Inl e, calls) \<Rightarrow> (Inl e, w\<lparr>model_calls := calls\<rparr>)
                | (Inr result, calls) \<Rightarrow>
                    (Inr (),
                     render [Markdown (lit ''### Answer:''), Info (answer result),
                           Caption_confidence (confidence result)]
                       (w\<lparr>model_calls := calls\<rparr>))))
        else (Inr (), render [Warning (lit ''Please enter a question!'')] w)
      else (Inr (), w))"

subsection \<open>The history, lines 166 to 175\<close>

text \<open>
  \<open>result\<close> has just been assigned when the entry is built, so \<open>'result' in locals()\<close> holds
  and the answer of the entry is \<open>result['answer']\<close>.
\<close>

definition update_history ::
  "pystr \<Rightarrow> pystr \<Rightarrow> qa_model \<Rightarrow> world \<Rightarrow> (exc + unit) \<times> world" where
  "update_history question pdf_text qa_model w =
     (let w = (if history w = None then w\<lparr>history := Some []\<rparr> else w) in
      if question \<noteq> [] \<and> last_question w \<noteq> Some question then
        (case lookup_global ''answer_question'' of
           Inl e \<Rightarrow> (Inl e, w)
         | Inr g \<Rightarrow>
             (case call_answerer g question pdf_text qa_model (model_calls w) of
                (Inl e, calls) \<Rightarrow> (Inl e, w\<lparr>model_calls := calls\<rparr>)
              | (Inr result, calls) \<Rightarrow>
                  (Inr (),
                   w\<lparr>model_calls := calls,
                     history := map_option
                       (\<lambda>h. h @ [\<lparr>h_question = question, h_answer = Some (answer result)\<rparr>])
                       (history w),
                     last_question := Some question\<rparr>)))
      else (Inr (), w))"

subsection \<open>Showing the history, lines 179 to 186\<close>

text \<open>\<open>enumerate(reversed(history[-5:]))\<close>: the last five entries, the latest first.\<close>

definition recent :: "entry list \<Rightarrow> (nat \<times> entry) list" where
  "recent h = enumerate 0 (rev (drop (length h - 5) h))"

text \<open>
  The entries of the loop that pass \<open>if qa['answer']\<close> (an answer that is neither \<open>None\<close>
  nor empty), each with the number \<open>len(history) - i\<close> it is shown under.
\<close>

definition truthy :: "pystr option \<Rightarrow> bool" where
  "truthy a = (case a of None \<Rightarrow> False | Some s \<Rightarrow> s \<noteq> [])"

definition history_rows :: "entry list \<Rightarrow> (int \<times> entry) list" where
  "history_rows h =
     map (\<lambda>(i, qa). (int (length h) - int i, qa))
       (filter (\<lambda>(i, qa). truthy (h_answer qa)) (recent h))"

definition show_row :: "int \<times> entry \<Rightarrow> ui list" where
  "show_row row =
     (case row of (n, qa) \<Rightarrow>
        [Markdown_Q n (h_question qa),
         Markdown_A (case h_answer qa of Some a \<Rightarrow> a | None \<Rightarrow> []),
         Markdown []])"

definition show_history :: "world \<Rightarrow> (exc + unit) \<times> world" where
  "show_history w =
     (case history w of
        None \<Rightarrow>
          (Inl (Exc ''AttributeError''
                  (lit ''st.session_state has no attribute '' @ [34] @ lit ''history'' @ [34])), w)
      | Some h \<Rightarrow>
          if h \<noteq> [] then
            (Inr (),
             render ([Markdown (lit ''---''), Subheader (lit ''Chat History'')]
                   @ concat (map show_row (history_rows h))) w)
          else (Inr (), w))"

subsection \<open>\<open>main\<close>\<close>

text \<open>
  Lines 130 to 186: the rest of the run once \<open>pdf_text\<close> is bound.
\<close>

definition main_with_text ::
  "(pystr \<Rightarrow> pystr \<Rightarrow> pystr \<Rightarrow> exc + qa_model) \<Rightarrow> 'f widgets \<Rightarrow> pystr \<Rightarrow> world
     \<Rightarrow> (exc + unit) \<times> world" where
  "main_with_text pipeline inp pdf_text w =
     (let w = render [Text_area (lit ''PDF Content'') pdf_text] w in
      case lookup_global ''load_qa_model'' of
        Inl e \<Rightarrow> (Inl e, w)
      | Inr g \<Rightarrow>
          (case call_loader g pipeline of
             Inl e \<Rightarrow> (Inl e, w)
           | Inr qa_model \<Rightarrow>
               (let w = render [Success (lit ''Ready to answer questions!''),
                              Subheader (lit ''Ask a Question'')] w
                in and_then
                     (and_then
                        (answer_button (button inp) (user_question inp) pdf_text qa_model w)
                        (update_history (user_question inp) pdf_text qa_model))
                     show_history)))"

text \<open>
  \<open>main()\<close>, lines 88 to 199, for one run of the script. The PyPDF2 operations and
  \<open>pipeline\<close> are the parameters of the functions it calls.
\<close>

definition main ::
  "('f, 'r, 'p) pypdf2 \<Rightarrow> (pystr \<Rightarrow> pystr \<Rightarrow> pystr \<Rightarrow> exc + qa_model) \<Rightarrow> 'f widgets \<Rightarrow> world
     \<Rightarrow> (exc + unit) \<times> world" where
  "main lib pipeline inp w =
     (let w = render
            [Title ([128196] @ lit '' PDF Question Answering Chatbot''),
             Markdown ([10] @ lit ''  Uplod a PDF document and ask question about its content.''
                       @ [10] @ lit ''  The AI will extract answers directly from your documnet!''
                       @ [10] @ lit ''  ''),
             Header (lit ''Upload PDF'')] w
      in case uploaded_file inp of
           Some up \<Rightarrow>
             (let w = render [Success (lit ''PDF uploaded successfully!''),
                            Json_file_details (up_name up) (up_size up)] w
              in case lookup_global ''extract_text_from_pdf'' of
                   Inl e \<Rightarrow> (Inl e, w)
                 | Inr g \<Rightarrow>
                     (case call_extractor g lib (up_file up) of
                        Inl e \<Rightarrow> (Inl e, w)
                      | Inr pdf_text \<Rightarrow> main_with_text pipeline inp pdf_text w))
         | None \<Rightarrow>
             (Inr (),
              render
                [Info (lit '' Please upload a PDF file from the sidebar to get started!''),
                 Markdown ([10] @ lit ''        ###How to use:''
                           @ [10] @ lit ''        1. Upload a PDF document using the sidebar''
                           @ [10] @ lit ''        2. Wait for text extraction''
                           @ [10] @ lit ''        3. Type your question about the document''
                           @ [10] @ lit ''        4. Click '' @ [39] @ lit ''Get Answer'' @ [39]
                           @ lit '' to get AI-powered responses''
                           @ [10] @ lit ''        '')] w))"

subsection \<open>Sample inputs\<close>

text \<open>
  A PyPDF2 whose files are the lists of their pages, a page being its text or the
  exception its extraction raises; a file of three pages whose second page is unreadable;
  a model that answers every question with \<open>blue\<close> at score \<open>0.5\<close>.
\<close>

definition sample_pypdf2 :: "((exc + pystr) list, (exc + pystr) list, exc + pystr) pypdf2" where
  "sample_pypdf2 =
     \<lparr>PdfReader = Inr,
      pages_len = (\<lambda>r. Inr (length r)),
      pages_getitem = (\<lambda>r i. if i < length r then Inr (r ! i)
                               else Inl (Exc ''IndexError'' (lit ''sequence index out of range''))),
      extract_text = (\<lambda>p. p)\<rparr>"

definition sample_bad_pdf :: "(exc + pystr) list" where
  "sample_bad_pdf =
     [Inr (lit ''The sky ''), Inl (Exc ''PdfReadError'' (lit ''bad page'')), Inr (lit ''is blue.'')]"

definition sample_model :: qa_model where
  "sample_model calls question context = Inr \<lparr>m_answer = lit ''blue'', m_score = Fin (1 / 2)\<rparr>"

definition empty_world :: world where
  "empty_world = \<lparr>history = None, last_question = None, screen = [], model_calls = []\<rparr>"

text \<open>
  A model whose answer depends on the calls made before (\<open>blue\<close> on its first call,
  \<open>green\<close> after), the run in which \<open>What color is the sky?\<close> is typed, and a history whose
  second entry has the empty answer.
\<close>

definition sample_changing_model :: qa_model where
  "sample_changing_model calls question context =
     Inr \<lparr>m_answer = (if calls = [] then lit ''blue'' else lit ''green''),
          m_score = Fin (1 / 2)\<rparr>"

definition sample_widgets :: "bool \<Rightarrow> unit widgets" where
  "sample_widgets pressed =
     \<lparr>uploaded_file = Some \<lparr>up_name = lit ''sky.pdf'', up_size = 2048, up_file = ()\<rparr>,
      user_question = lit ''What color is the sky?'', button = pressed\<rparr>"

definition sample_history :: "entry list" where
  "sample_history =
     [\<lparr>h_question = lit ''What color is the sky?'', h_answer = Some (lit ''blue'')\<rparr>,
      \<lparr>h_question = lit ''Why?'', h_answer = Some []\<rparr>]"

definition sample_long_history :: "entry list" where
  "sample_long_history =
     [\<lparr>h_question = lit ''Q1'', h_answer = Some (lit ''A1'')\<rparr>,
      \<lparr>h_question = lit ''Q2'', h_answer = Some (lit ''A2'')\<rparr>,
      \<lparr>h_question = lit ''Q3'', h_answer = Some (lit ''A3'')\<rparr>,
      \<lparr>h_question = lit ''Q4'', h_answer = Some (lit ''A4'')\<rparr>,
      \<lparr>h_question = lit ''Q5'', h_answer = Some (lit ''A5'')\<rparr>,
      \<lparr>h_question = lit ''Q6'', h_answer = Some (lit ''A6'')\<rparr>]"

subsection \<open>Auxiliary functions for the statements\<close>

text \<open>
  What \<open>answer_question\<close> returns for an outcome of its model call, and the history of a
  session state as a list (empty while the key is absent).
\<close>

definition qa_result_of :: "exc + model_output \<Rightarrow> qa_result" where
  "qa_result_of outcome =
     (case outcome of
        Inr result \<Rightarrow>
          \<lparr>answer = m_answer result,
           confidence = PyFloat (round2 (float_mul (m_score result) (Fin 100)))\<rparr>
      | Inl e \<Rightarrow> \<lparr>answer = lit ''Error: '' @ exc_str e, confidence = PyInt 0\<rparr>)"

definition history_list :: "world \<Rightarrow> entry list" where
  "history_list w = (case history w of None \<Rightarrow> [] | Some h \<Rightarrow> h)"

text \<open>One round of the loop: the text of page \<open>page_num\<close>, or the exception of reading it.\<close>

definition page_text :: "('f, 'r, 'p) pypdf2 \<Rightarrow> 'r \<Rightarrow> nat \<Rightarrow> exc + pystr" where
  "page_text lib pdf_reader page_num =
     (case pages_getitem lib pdf_reader page_num of
        Inl e \<Rightarrow> Inl e
      | Inr page \<Rightarrow> extract_text lib page)"

section \<open>Properties of \<open>answer_question\<close>\<close>

text \<open>
  \<open>context[:max_length]\<close> is \<open>take\<close>, which leaves a shorter string as it is, so the
  context passed to the model is \<open>take 1536 context\<close> in both branches of the test.
\<close>

lemma answer_question_eq:
  "answer_question question context qa_model calls =
     (case qa_model calls question (take 1536 context) of
        Inr result \<Rightarrow>
          Inr \<lparr>answer = m_answer result,
                confidence = PyFloat (round2 (float_mul (m_score result) (Fin 100)))\<rparr>
      | Inl e \<Rightarrow>
          if is_Exception e
          then Inr \<lparr>answer = lit ''Error: '' @ exc_str e, confidence = PyInt 0\<rparr>
          else Inl e,
      calls @ [(question, take 1536 context)])"
  by (simp add: answer_question_def split: sum.splits)

text \<open>
  The function returns unless the model raises what is not an instance of \<open>Exception\<close>,
  which leaves it after the one call.
\<close>

lemma answer_question_returns:
  assumes "\<And>e. qa_model calls question (take 1536 context) = Inl e \<Longrightarrow> is_Exception e"
  shows "\<exists>r. fst (answer_question question context qa_model calls) = Inr r"
  using assms by (simp add: answer_question_eq split: sum.splits)

lemma answer_question_propagates:
  assumes "qa_model calls question (take 1536 context) = Inl e" and "\<not> is_Exception e"
  shows "answer_question question context qa_model calls =
           (Inl e, calls @ [(question, take 1536 context)])"
  using assms by (simp add: answer_question_eq)

lemma answer_question_one_call:
  "snd (answer_question question context qa_model calls) =
     calls @ [(question, take 1536 context)]"
  by (simp add: answer_question_eq)

text \<open>
  Claim C3 as stated fails: \<open>KeyboardInterrupt\<close> is not an instance of \<open>Exception\<close>, and a
  model handle that raises it makes \<open>answer_question\<close> raise it too, after the one call,
  where the claim has it return \<open>{answer: "Error: ", confidence: 0}\<close>.
\<close>

theorem answer_question_KeyboardInterrupt:
  "answer_question (lit ''Why?'') (lit ''The sky is blue.'')
     (\<lambda>calls q c. Inl (BaseExc ''KeyboardInterrupt'' [])) []
   = (Inl (BaseExc ''KeyboardInterrupt'' []), [(lit ''Why?'', lit ''The sky is blue.'')]) \<and>
   fst (answer_question (lit ''Why?'') (lit ''The sky is blue.'')
          (\<lambda>calls q c. Inl (BaseExc ''KeyboardInterrupt'' [])) [])
   \<noteq> Inr \<lparr>answer = lit ''Error: '' @ [], confidence = PyInt 0\<rparr>"
  by (simp add: answer_question_eq lit_def)

text \<open>
  Claim C3, amended. If the model invocation inside \<open>answer_question\<close> raises an exception
  \<open>e\<close> that is an instance of \<open>Exception\<close>, \<open>answer_question\<close> returns
  \<open>{answer: "Error: " + str(e), confidence: 0}\<close> (it returns, the exception does not leave
  it), and the model has been called exactly once: the log of calls grows by the one call.
\<close>

theorem answer_question_model_raises:
  assumes "qa_model calls question (take 1536 context) = Inl e"
    and "is_Exception e"
  shows "answer_question question context qa_model calls =
           (Inr \<lparr>answer = lit ''Error: '' @ exc_str e, confidence = PyInt 0\<rparr>,
            calls @ [(question, take 1536 context)])"
  using assms by (simp add: answer_question_eq)

theorem answer_question_model_raises_witness:
  "answer_question (lit ''Why?'') (lit ''The sky is blue.'')
     (\<lambda>calls q c. Inl (Exc ''RuntimeError'' (lit ''model not loaded''))) []
   = (Inr \<lparr>answer = lit ''Error: model not loaded'', confidence = PyInt 0\<rparr>,
      [(lit ''Why?'', lit ''The sky is blue.'')])"
  using answer_question_model_raises
    [of "\<lambda>calls q c. Inl (Exc ''RuntimeError'' (lit ''model not loaded''))"
        "[]" "lit ''Why?''" "lit ''The sky is blue.''"
        "Exc ''RuntimeError'' (lit ''model not loaded'')"]
  by (simp add: lit_def)





section \<open>Properties of \<open>extract__text_from_pdf\<close>\<close>

lemma extract_pages_Cons:
  "extract_pages lib r (i # rest) acc =
     (case page_text lib r i of Inl e \<Rightarrow> Inl e | Inr t \<Rightarrow> extract_pages lib r rest (acc @ t))"
  by (simp add: page_text_def split: sum.splits)

lemma extract_pages_first_error:
  assumes "\<forall>i \<in> set xs. \<exists>t. page_text lib r i = Inr t"
    and "page_text lib r k = Inl e"
  shows "extract_pages lib r (xs @ k # ys) acc = Inl e"
  using assms
proof (induction xs arbitrary: acc)
  case Nil
  then show ?case by (simp add: extract_pages_Cons del: extract_pages.simps(2))
next
  case (Cons x xs)
  from Cons.prems obtain t where "page_text lib r x = Inr t" by auto
  with Cons show ?case by (simp add: extract_pages_Cons del: extract_pages.simps(2))
qed

lemma extract_pages_all_ok:
  assumes "\<forall>i \<in> set xs. page_text lib r i = Inr (f i)"
  shows "extract_pages lib r xs acc = Inr (acc @ concat (map f xs))"
  using assms
  by (induction xs arbitrary: acc) (simp_all add: extract_pages_Cons del: extract_pages.simps(2))

text \<open>What leaves the function is not an instance of \<open>Exception\<close>.\<close>

lemma extract__text_from_pdf_raises:
  assumes "extract__text_from_pdf lib pdf_file = Inl e"
  shows "\<not> is_Exception e"
  using assms by (auto simp: extract__text_from_pdf_def split: sum.splits if_splits)

lemma extract__text_from_pdf_propagates:
  assumes "PdfReader lib pdf_file = Inl e" and "\<not> is_Exception e"
  shows "extract__text_from_pdf lib pdf_file = Inl e"
  using assms by (simp add: extract__text_from_pdf_def)

text \<open>
  Claim C7. If an error \<open>e\<close>, an instance of \<open>Exception\<close>, occurs during parsing or page text
  extraction (opening the reader raises \<open>e\<close>, or counting the pages does, or the pages
  before page \<open>k\<close> are read and fetching page \<open>k\<close> or extracting its text raises \<open>e\<close>), then
  the Text Extractor returns the string \<open>"Error extracting text: " + str(e)\<close>: the
  exception does not leave it.
\<close>

theorem extract__text_from_pdf_error:
  assumes "is_Exception e"
    and "PdfReader lib pdf_file = Inl e \<or>
     (\<exists>r. PdfReader lib pdf_file = Inr r \<and>
        (pages_len lib r = Inl e \<or>
         (\<exists>n k. pages_len lib r = Inr n \<and> k < n \<and>
            (\<forall>i<k. \<exists>p t. pages_getitem lib r i = Inr p \<and> extract_text lib p = Inr t) \<and>
            (pages_getitem lib r k = Inl e \<or>
             (\<exists>p. pages_getitem lib r k = Inr p \<and> extract_text lib p = Inl e)))))"
  shows "extract__text_from_pdf lib pdf_file = Inr (lit ''Error extracting text: '' @ exc_str e)"
proof -
  consider (reader) "PdfReader lib pdf_file = Inl e"
    | (len) r where "PdfReader lib pdf_file = Inr r" "pages_len lib r = Inl e"
    | (page) r n k where "PdfReader lib pdf_file = Inr r" "pages_len lib r = Inr n" "k < n"
        "\<forall>i<k. \<exists>p t. pages_getitem lib r i = Inr p \<and> extract_text lib p = Inr t"
        "pages_getitem lib r k = Inl e \<or>
           (\<exists>p. pages_getitem lib r k = Inr p \<and> extract_text lib p = Inl e)"
    using assms(2) by blast
  then show ?thesis
  proof cases
    case reader
    with assms(1) show ?thesis by (simp add: extract__text_from_pdf_def)
  next
    case len
    with assms(1) show ?thesis by (simp add: extract__text_from_pdf_def)
  next
    case page
    have ok: "\<forall>i \<in> set [0..<k]. \<exists>t. page_text lib r i = Inr t"
      using page(4) by (auto simp: page_text_def)
    have bad: "page_text lib r k = Inl e"
      using page(5) by (auto simp: page_text_def)
    have "[0..<n] = [0..<k] @ k # [Suc k..<n]"
      using page(3) by (metis le_add2 le_add_same_cancel2 upt_add_eq_append upt_conv_Cons less_imp_add_positive add.commute)
    then have "extract_pages lib r [0..<n] [] = Inl e"
      using extract_pages_first_error [OF ok bad] by simp
    with page(1,2) assms(1) show ?thesis by (simp add: extract__text_from_pdf_def)
  qed
qed

theorem extract__text_from_pdf_error_witness:
  "extract__text_from_pdf sample_pypdf2 sample_bad_pdf = Inr (lit ''Error extracting text: bad page'')"
proof -
  let ?e = "Exc ''PdfReadError'' (lit ''bad page'')"
  have "PdfReader sample_pypdf2 sample_bad_pdf = Inr sample_bad_pdf \<and>
        pages_len sample_pypdf2 sample_bad_pdf = Inr 3 \<and> (1 :: nat) < 3 \<and>
        (\<forall>i<1. \<exists>p t. pages_getitem sample_pypdf2 sample_bad_pdf i = Inr p \<and>
                      extract_text sample_pypdf2 p = Inr t) \<and>
        (\<exists>p. pages_getitem sample_pypdf2 sample_bad_pdf 1 = Inr p \<and>
              extract_text sample_pypdf2 p = Inl ?e)"
    by (simp add: sample_pypdf2_def sample_bad_pdf_def)
  then have "PdfReader sample_pypdf2 sample_bad_pdf = Inl ?e \<or>
     (\<exists>r. PdfReader sample_pypdf2 sample_bad_pdf = Inr r \<and>
        (pages_len sample_pypdf2 r = Inl ?e \<or>
         (\<exists>n k. pages_len sample_pypdf2 r = Inr n \<and> k < n \<and>
            (\<forall>i<k. \<exists>p t. pages_getitem sample_pypdf2 r i = Inr p \<and>
                          extract_text sample_pypdf2 p = Inr t) \<and>
            (pages_getitem sample_pypdf2 r k = Inl ?e \<or>
             (\<exists>p. pages_getitem sample_pypdf2 r k = Inr p \<and>
                   extract_text sample_pypdf2 p = Inl ?e)))))"
    by blast
  moreover have "is_Exception ?e"
    by simp
  ultimately show ?thesis
    using extract__text_from_pdf_error [of ?e sample_pypdf2 sample_bad_pdf]
    by (simp add: lit_def)
qed

text \<open>When every page is read, the result is the texts of the pages in page order, joined.\<close>

lemma extract__text_from_pdf_success:
  assumes "PdfReader lib pdf_file = Inr r" and "pages_len lib r = Inr n"
    and "\<forall>i<n. page_text lib r i = Inr (f i)"
  shows "extract__text_from_pdf lib pdf_file = Inr (concat (map f [0..<n]))"
proof -
  have "extract_pages lib r [0..<n] [] = Inr ([] @ concat (map f [0..<n]))"
    by (rule extract_pages_all_ok) (use assms(3) in simp)
  with assms(1,2) show ?thesis
    by (simp add: extract__text_from_pdf_def)
qed

section \<open>Properties of \<open>load_qa_model\<close> and of the call of the extractor\<close>

text \<open>
  Claim C2. The identifier passed to \<open>pipeline\<close> as \<open>model\<close> and the one passed as
  \<open>tokenizer\<close> should be one string. The source passes two: with a \<open>pipeline\<close> that returns
  its two keyword arguments, \<open>load_qa_model\<close> returns \<open>distilbert-base-ucased-distilled-squad\<close>
  and \<open>distilbert-base-uncased-distilled-squad\<close>, which differ.
\<close>

theorem load_qa_model_identifiers_differ:
  "load_qa_model (\<lambda>task model tokenizer. Inr (model, tokenizer)) =
     Inr (lit ''distilbert-base-ucased-distilled-squad'',
          lit ''distilbert-base-uncased-distilled-squad'') \<and>
   lit ''distilbert-base-ucased-distilled-squad'' \<noteq>
   lit ''distilbert-base-uncased-distilled-squad''"
  by (simp add: load_qa_model_def lit_def)

lemma lookup_extract_text_from_pdf:
  "lookup_global ''extract_text_from_pdf'' =
     Inl (Exc ''NameError''
            (lit ''name '' @ [39] @ lit ''extract_text_from_pdf'' @ [39] @ lit '' is not defined''))"
  by (simp add: lookup_global_def module_globals_def)

lemma lookup_load_qa_model: "lookup_global ''load_qa_model'' = Inr Def_load_qa_model"
  by (simp add: lookup_global_def module_globals_def)

lemma lookup_answer_question: "lookup_global ''answer_question'' = Inr Def_answer_question"
  by (simp add: lookup_global_def module_globals_def)

lemma lookup_extract__text_from_pdf:
  "lookup_global ''extract__text_from_pdf'' = Inr Def_extract__text_from_pdf"
  by (simp add: lookup_global_def module_globals_def)

text \<open>
  With a file uploaded, \<open>main\<close> raises \<open>NameError\<close> at line 128, whatever the file, the
  library and the state: no function of the module has run, the session state and the
  log of model calls are as before.
\<close>

lemma main_uploaded_NameError:
  assumes "uploaded_file inp = Some up"
  shows "fst (main lib pipeline inp w) =
           Inl (Exc ''NameError''
                  (lit ''name '' @ [39] @ lit ''extract_text_from_pdf'' @ [39]
                   @ lit '' is not defined''))"
    and "history (snd (main lib pipeline inp w)) = history w"
    and "last_question (snd (main lib pipeline inp w)) = last_question w"
    and "model_calls (snd (main lib pipeline inp w)) = model_calls w"
  using assms by (simp_all add: main_def lookup_extract_text_from_pdf render_def Let_def)

text \<open>
  Claim C1. With a file uploaded, \<open>main\<close> should call the Text Extractor of the module
  once on the file and use what it returns. The source calls the name
  \<open>extract_text_from_pdf\<close>; the module defines \<open>extract__text_from_pdf\<close>. On a readable
  one-page file the run ends in \<open>NameError\<close> after the sidebar is drawn, and the text of the
  file is not shown.
\<close>

theorem main_uploaded_file_NameError:
  "main sample_pypdf2 (\<lambda>task model tokenizer. Inr sample_model)
     \<lparr>uploaded_file = Some \<lparr>up_name = lit ''sky.pdf'', up_size = 2048,
                              up_file = [Inr (lit ''The sky is blue.'')]\<rparr>,
      user_question = [], button = False\<rparr>
     empty_world =
   (Inl (Exc ''NameError'' (lit ''name '' @ [39] @ lit ''extract_text_from_pdf'' @ [39]
                             @ lit '' is not defined'')),
    \<lparr>history = None, last_question = None,
     screen = [Title ([128196] @ lit '' PDF Question Answering Chatbot''),
               Markdown ([10] @ lit ''  Uplod a PDF document and ask question about its content.''
                         @ [10] @ lit ''  The AI will extract answers directly from your documnet!''
                         @ [10] @ lit ''  ''),
               Header (lit ''Upload PDF''),
               Success (lit ''PDF uploaded successfully!''),
               Json_file_details (lit ''sky.pdf'') 2048],
     model_calls = []\<rparr>) \<and>
   extract__text_from_pdf sample_pypdf2 [Inr (lit ''The sky is blue.'')] =
     Inr (lit ''The sky is blue.'')"
  by (simp add: main_def lookup_extract_text_from_pdf render_def Let_def empty_world_def
      extract__text_from_pdf_def sample_pypdf2_def)

section \<open>Properties of a run of \<open>main\<close> after the text is extracted\<close>

text \<open>
  The lemmas of this section are for a model that raises instances of \<open>Exception\<close> only;
  \<open>answer_question\<close> then returns at every call.
\<close>

lemma answer_question_result:
  assumes "\<forall>calls question context e.
             qa_model calls question context = Inl e \<longrightarrow> is_Exception e"
  shows "answer_question question context qa_model calls =
     (Inr (qa_result_of (qa_model calls question (take 1536 context))),
      calls @ [(question, take 1536 context)])"
  using assms [rule_format, of calls question "take 1536 context"]
  by (simp add: answer_question_eq qa_result_of_def split: sum.splits)

lemma call_answerer_eq:
  assumes "\<forall>calls question context e.
             qa_model calls question context = Inl e \<longrightarrow> is_Exception e"
  shows "call_answerer Def_answer_question question context qa_model calls =
     (Inr (qa_result_of (qa_model calls question (take 1536 context))),
      calls @ [(question, take 1536 context)])"
  by (simp add: call_answerer_def answer_question_result [OF assms])

text \<open>Each part of the run as one update of the state.\<close>

lemma answer_button_eq:
  assumes "\<forall>calls question context e.
             qa_model calls question context = Inl e \<longrightarrow> is_Exception e"
  shows "answer_button pressed question pdf_text qa_model w =
     (Inr (),
      w\<lparr>screen := screen w @
           (if pressed then
              if question \<noteq> [] then
                [Markdown (lit ''### Answer:''),
                 Info (answer (qa_result_of
                         (qa_model (model_calls w) question (take 1536 pdf_text)))),
                 Caption_confidence (confidence (qa_result_of
                         (qa_model (model_calls w) question (take 1536 pdf_text))))]
              else [Warning (lit ''Please enter a question!'')]
            else []),
        model_calls := model_calls w @
           (if pressed \<and> question \<noteq> [] then [(question, take 1536 pdf_text)] else [])\<rparr>)"
  by (simp add: answer_button_def lookup_answer_question call_answerer_eq [OF assms]
      render_def)

lemma update_history_eq:
  assumes "\<forall>calls question context e.
             qa_model calls question context = Inl e \<longrightarrow> is_Exception e"
  shows "update_history question pdf_text qa_model w =
     (Inr (),
      w\<lparr>history := Some (history_list w @
           (if question \<noteq> [] \<and> last_question w \<noteq> Some question then
              [\<lparr>h_question = question,
                h_answer = Some (answer (qa_result_of
                             (qa_model (model_calls w) question (take 1536 pdf_text))))\<rparr>]
            else [])),
        last_question :=
           (if question \<noteq> [] \<and> last_question w \<noteq> Some question then Some question
            else last_question w),
        model_calls := model_calls w @
           (if question \<noteq> [] \<and> last_question w \<noteq> Some question
            then [(question, take 1536 pdf_text)] else [])\<rparr>)"
proof (cases "history w")
  case None
  then show ?thesis
    by (simp add: update_history_def lookup_answer_question call_answerer_eq [OF assms]
        history_list_def)
next
  case (Some h)
  then have "w\<lparr>history := Some h\<rparr> = w"
    by simp
  with Some show ?thesis
    by (simp add: update_history_def lookup_answer_question call_answerer_eq [OF assms]
        history_list_def)
qed

lemma show_history_eq:
  assumes "history w = Some h"
  shows "show_history w =
           (Inr (),
            w\<lparr>screen := screen w @
                 (if h \<noteq> [] then
                    [Markdown (lit ''---''), Subheader (lit ''Chat History'')]
                    @ concat (map show_row (history_rows h))
                  else [])\<rparr>)"
  using assms by (simp add: show_history_def render_def)

text \<open>
  The whole run, lines 130 to 186, once the model is loaded: it returns, and its final
  state is given field by field. \<open>calls1\<close> is the log after the button part, \<open>new\<close> the
  test of line 169.
\<close>

lemma main_with_text_eq:
  assumes "load_qa_model pipeline = Inr qa_model"
    and "\<forall>calls question context e.
           qa_model calls question context = Inl e \<longrightarrow> is_Exception e"
  shows "main_with_text pipeline inp pdf_text w =
     (let q = user_question inp;
          c = take 1536 pdf_text;
          calls1 = model_calls w @ (if button inp \<and> q \<noteq> [] then [(q, c)] else []);
          new = (q \<noteq> [] \<and> last_question w \<noteq> Some q);
          h = history_list w @
              (if new then
                 [\<lparr>h_question = q,
                   h_answer = Some (answer (qa_result_of (qa_model calls1 q c)))\<rparr>]
               else [])
      in (Inr (),
          \<lparr>history = Some h,
           last_question = (if new then Some q else last_question w),
           screen = screen w
             @ [Text_area (lit ''PDF Content'') pdf_text,
                Success (lit ''Ready to answer questions!''),
                Subheader (lit ''Ask a Question'')]
             @ (if button inp then
                  if q \<noteq> [] then
                    [Markdown (lit ''### Answer:''),
                     Info (answer (qa_result_of (qa_model (model_calls w) q c))),
                     Caption_confidence (confidence (qa_result_of (qa_model (model_calls w) q c)))]
                  else [Warning (lit ''Please enter a question!'')]
                else [])
             @ (if h \<noteq> [] then
                  [Markdown (lit ''---''), Subheader (lit ''Chat History'')]
                  @ concat (map show_row (history_rows h))
                else []),
           model_calls = calls1 @ (if new then [(q, c)] else [])\<rparr>))"
proof -
  define q where "q = user_question inp"
  define c where "c = take 1536 pdf_text"
  define w1 where "w1 = render [Text_area (lit ''PDF Content'') pdf_text,
                                Success (lit ''Ready to answer questions!''),
                                Subheader (lit ''Ask a Question'')] w"
  have m: "main_with_text pipeline inp pdf_text w =
             and_then
               (and_then (answer_button (button inp) q pdf_text qa_model w1)
                  (update_history q pdf_text qa_model))
               show_history"
    using assms(1)
    by (simp add: main_with_text_def lookup_load_qa_model call_loader_def Let_def
        w1_def q_def render_def)
  obtain w2 where s1: "answer_button (button inp) q pdf_text qa_model w1 = (Inr (), w2)"
    and w2: "w2 = w1\<lparr>screen := screen w1 @
           (if button inp then
              if q \<noteq> [] then
                [Markdown (lit ''### Answer:''),
                 Info (answer (qa_result_of (qa_model (model_calls w1) q c))),
                 Caption_confidence (confidence (qa_result_of (qa_model (model_calls w1) q c)))]
              else [Warning (lit ''Please enter a question!'')]
            else []),
        model_calls := model_calls w1 @
           (if button inp \<and> q \<noteq> [] then [(q, c)] else [])\<rparr>"
    unfolding c_def by (simp only: answer_button_eq [OF assms(2)])
  obtain w3 where s2: "update_history q pdf_text qa_model w2 = (Inr (), w3)"
    and w3: "w3 = w2\<lparr>history := Some (history_list w2 @
           (if q \<noteq> [] \<and> last_question w2 \<noteq> Some q then
              [\<lparr>h_question = q,
                h_answer = Some (answer (qa_result_of (qa_model (model_calls w2) q c)))\<rparr>]
            else [])),
        last_question :=
           (if q \<noteq> [] \<and> last_question w2 \<noteq> Some q then Some q else last_question w2),
        model_calls := model_calls w2 @
           (if q \<noteq> [] \<and> last_question w2 \<noteq> Some q then [(q, c)] else [])\<rparr>"
    unfolding c_def by (simp only: update_history_eq [OF assms(2)])
  define h where "h = history_list w2 @
           (if q \<noteq> [] \<and> last_question w2 \<noteq> Some q then
              [\<lparr>h_question = q,
                h_answer = Some (answer (qa_result_of (qa_model (model_calls w2) q c)))\<rparr>]
            else [])"
  have h3: "history w3 = Some h"
    by (simp add: w3 h_def)
  have s3: "show_history w3 =
           (Inr (),
            w3\<lparr>screen := screen w3 @
                 (if h \<noteq> [] then
                    [Markdown (lit ''---''), Subheader (lit ''Chat History'')]
                    @ concat (map show_row (history_rows h))
                  else [])\<rparr>)"
    by (rule show_history_eq [OF h3])
  have run: "main_with_text pipeline inp pdf_text w =
           (Inr (),
            w3\<lparr>screen := screen w3 @
                 (if h \<noteq> [] then
                    [Markdown (lit ''---''), Subheader (lit ''Chat History'')]
                    @ concat (map show_row (history_rows h))
                  else [])\<rparr>)"
    unfolding m by (simp add: s1 s2 s3 and_then_def)
  have f1: "history_list w2 = history_list w" "last_question w2 = last_question w"
    "model_calls w1 = model_calls w" "screen w1 = screen w @ [Text_area (lit ''PDF Content'') pdf_text,
                                Success (lit ''Ready to answer questions!''),
                                Subheader (lit ''Ask a Question'')]"
    by (simp_all add: w2 w1_def render_def history_list_def)
  show ?thesis
    unfolding run Let_def q_def [symmetric] c_def [symmetric]
    by (cases w) (simp add: w3 w2 w1_def render_def history_list_def h_def)
qed

text \<open>
  Claim C8. In a run with a model that raises instances of \<open>Exception\<close> only, a history
  entry is appended if and only if the question is not empty and differs from the
  recorded last question (which is absent before the first question), and the last
  question is then the question. Hence a second run with the same question appends
  nothing: the same question twice in a row leaves one entry.
\<close>

theorem history_appended_iff_new_question:
  assumes load: "load_qa_model pipeline = Inr qa_model"
    and exn: "\<forall>calls question context e.
           qa_model calls question context = Inl e \<longrightarrow> is_Exception e"
    and same: "user_question inp' = user_question inp"
  shows "(\<exists>a. history_list (snd (main_with_text pipeline inp pdf_text w)) =
            history_list w @
            (if user_question inp \<noteq> [] \<and> last_question w \<noteq> Some (user_question inp)
             then [\<lparr>h_question = user_question inp, h_answer = Some a\<rparr>] else [])) \<and>
         last_question (snd (main_with_text pipeline inp pdf_text w)) =
            (if user_question inp \<noteq> [] \<and> last_question w \<noteq> Some (user_question inp)
             then Some (user_question inp) else last_question w) \<and>
         history_list (snd (main_with_text pipeline inp' pdf_text'
                              (snd (main_with_text pipeline inp pdf_text w)))) =
            history_list (snd (main_with_text pipeline inp pdf_text w)) \<and>
         last_question (snd (main_with_text pipeline inp' pdf_text'
                              (snd (main_with_text pipeline inp pdf_text w)))) =
            last_question (snd (main_with_text pipeline inp pdf_text w))"
proof -
  let ?w' = "snd (main_with_text pipeline inp pdf_text w)"
  let ?new = "user_question inp \<noteq> [] \<and> last_question w \<noteq> Some (user_question inp)"
  note eq = main_with_text_eq [OF load exn]
  have h1: "\<exists>a. history_list ?w' =
            history_list w @
            (if ?new then [\<lparr>h_question = user_question inp, h_answer = Some a\<rparr>] else [])"
    by (simp add: eq Let_def history_list_def)
  have l1: "last_question ?w' = (if ?new then Some (user_question inp) else last_question w)"
    by (simp add: eq Let_def)
  have old: "\<not> (user_question inp' \<noteq> [] \<and> last_question ?w' \<noteq> Some (user_question inp'))"
    using same l1 by auto
  have h2: "history_list (snd (main_with_text pipeline inp' pdf_text' ?w')) = history_list ?w'"
    using old
    by (simp add: eq [where inp = inp' and pdf_text = pdf_text' and w = ?w'] Let_def
        history_list_def [of "\<lparr>history = _, last_question = _, screen = _, model_calls = _\<rparr>"])
  have l2: "last_question (snd (main_with_text pipeline inp' pdf_text' ?w')) = last_question ?w'"
    using old
    by (auto simp: eq [where inp = inp' and pdf_text = pdf_text' and w = ?w'] Let_def)
  from h1 l1 h2 l2 show ?thesis
    by blast
qed

theorem history_appended_iff_new_question_witness:
  "history_list
     (snd (main_with_text (\<lambda>task model tokenizer. Inr sample_model) (sample_widgets True) []
        (snd (main_with_text (\<lambda>task model tokenizer. Inr sample_model) (sample_widgets False)
                (lit ''The sky is blue.'') empty_world)))) =
   [\<lparr>h_question = lit ''What color is the sky?'', h_answer = Some (lit ''blue'')\<rparr>]"
proof -
  have load: "load_qa_model (\<lambda>task model tokenizer. Inr sample_model) = Inr sample_model"
    by (simp add: load_qa_model_def)
  have exn: "\<forall>calls question context e.
               sample_model calls question context = Inl e \<longrightarrow> is_Exception e"
    by (simp add: sample_model_def)
  have same: "user_question (sample_widgets True) = user_question (sample_widgets False)"
    by (simp add: sample_widgets_def)
  have first: "history_list
     (snd (main_with_text (\<lambda>task model tokenizer. Inr sample_model) (sample_widgets False)
             (lit ''The sky is blue.'') empty_world)) =
     [\<lparr>h_question = lit ''What color is the sky?'', h_answer = Some (lit ''blue'')\<rparr>]"
    by (simp add: main_with_text_eq [OF load exn] Let_def history_list_def empty_world_def
        sample_widgets_def sample_model_def qa_result_of_def lit_def)
  from history_appended_iff_new_question [OF load exn same, of "lit ''The sky is blue.''" empty_world "[]"]
  show ?thesis
    by (simp only: first)
qed

text \<open>
  Claim C10. With a model that raises instances of \<open>Exception\<close> only: when the button is
  pressed with a question (the input is not empty) that differs from the recorded last
  question, the run invokes \<open>answer_question\<close> twice with
  the same question, full extracted text and model: the first result is the answer
  shown, the second, computed after the first call is in the log of the model, is the
  answer recorded in the history.
\<close>

theorem main_answers_twice:
  assumes load: "load_qa_model pipeline = Inr qa_model"
    and exn: "\<forall>calls question context e.
           qa_model calls question context = Inl e \<longrightarrow> is_Exception e"
    and pressed: "button inp"
    and asked: "user_question inp \<noteq> []"
    and new: "last_question w \<noteq> Some (user_question inp)"
  shows "\<exists>r1 r2 calls1 calls2.
     answer_question (user_question inp) pdf_text qa_model (model_calls w) = (Inr r1, calls1) \<and>
     answer_question (user_question inp) pdf_text qa_model calls1 = (Inr r2, calls2) \<and>
     fst (main_with_text pipeline inp pdf_text w) = Inr () \<and>
     model_calls (snd (main_with_text pipeline inp pdf_text w)) = calls2 \<and>
     calls2 = model_calls w @ [(user_question inp, take 1536 pdf_text),
                               (user_question inp, take 1536 pdf_text)] \<and>
     prefix (screen w @ [Text_area (lit ''PDF Content'') pdf_text,
                         Success (lit ''Ready to answer questions!''),
                         Subheader (lit ''Ask a Question''),
                         Markdown (lit ''### Answer:''),
                         Info (answer r1),
                         Caption_confidence (confidence r1)])
       (screen (snd (main_with_text pipeline inp pdf_text w))) \<and>
     history (snd (main_with_text pipeline inp pdf_text w)) =
       Some (history_list w @ [\<lparr>h_question = user_question inp, h_answer = Some (answer r2)\<rparr>])"
  using pressed asked new
  by (simp add: main_with_text_eq [OF load exn] Let_def answer_question_result [OF exn])

theorem main_answers_twice_witness:
  "history (snd (main_with_text (\<lambda>task model tokenizer. Inr sample_changing_model)
                   (sample_widgets True) (lit ''The sky is blue.'') empty_world)) =
     Some [\<lparr>h_question = lit ''What color is the sky?'', h_answer = Some (lit ''green'')\<rparr>] \<and>
   model_calls (snd (main_with_text (\<lambda>task model tokenizer. Inr sample_changing_model)
                   (sample_widgets True) (lit ''The sky is blue.'') empty_world)) =
     [(lit ''What color is the sky?'', lit ''The sky is blue.''),
      (lit ''What color is the sky?'', lit ''The sky is blue.'')] \<and>
   Info (lit ''blue'') \<in> set (screen (snd (main_with_text
                   (\<lambda>task model tokenizer. Inr sample_changing_model)
                   (sample_widgets True) (lit ''The sky is blue.'') empty_world)))"
proof -
  have load: "load_qa_model (\<lambda>task model tokenizer. Inr sample_changing_model) =
                Inr sample_changing_model"
    by (simp add: load_qa_model_def)
  have exn: "\<forall>calls question context e.
               sample_changing_model calls question context = Inl e \<longrightarrow> is_Exception e"
    by (simp add: sample_changing_model_def)
  have b: "button (sample_widgets True)"
    and q: "user_question (sample_widgets True) \<noteq> []"
    and l: "last_question empty_world \<noteq> Some (user_question (sample_widgets True))"
    by (simp_all add: sample_widgets_def empty_world_def lit_def)
  from main_answers_twice [OF load exn b q l, of "lit ''The sky is blue.''"]
  obtain r1 r2 calls1 calls2 where
    a1: "answer_question (user_question (sample_widgets True)) (lit ''The sky is blue.'')
           sample_changing_model (model_calls empty_world) = (Inr r1, calls1)" and
    a2: "answer_question (user_question (sample_widgets True)) (lit ''The sky is blue.'')
           sample_changing_model calls1 = (Inr r2, calls2)" and
    c: "model_calls (snd (main_with_text (\<lambda>task model tokenizer. Inr sample_changing_model)
          (sample_widgets True) (lit ''The sky is blue.'') empty_world)) = calls2" and
    c2: "calls2 = model_calls empty_world @
          [(user_question (sample_widgets True), take 1536 (lit ''The sky is blue.'')),
           (user_question (sample_widgets True), take 1536 (lit ''The sky is blue.''))]" and
    s: "prefix (screen empty_world @ [Text_area (lit ''PDF Content'') (lit ''The sky is blue.''),
                         Success (lit ''Ready to answer questions!''),
                         Subheader (lit ''Ask a Question''),
                         Markdown (lit ''### Answer:''),
                         Info (answer r1),
                         Caption_confidence (confidence r1)])
       (screen (snd (main_with_text (\<lambda>task model tokenizer. Inr sample_changing_model)
          (sample_widgets True) (lit ''The sky is blue.'') empty_world)))" and
    h: "history (snd (main_with_text (\<lambda>task model tokenizer. Inr sample_changing_model)
          (sample_widgets True) (lit ''The sky is blue.'') empty_world)) =
       Some (history_list empty_world @
               [\<lparr>h_question = user_question (sample_widgets True), h_answer = Some (answer r2)\<rparr>])"
    by blast
  have r1: "answer r1 = lit ''blue''"
    using a1 by (auto simp: answer_question_eq sample_changing_model_def empty_world_def)
  have "calls1 \<noteq> []"
    using a1 by (auto simp: answer_question_eq)
  then have r2: "answer r2 = lit ''green''"
    using a2 by (auto simp: answer_question_eq sample_changing_model_def)
  have "Info (lit ''blue'') \<in> set (screen empty_world @
                        [Text_area (lit ''PDF Content'') (lit ''The sky is blue.''),
                         Success (lit ''Ready to answer questions!''),
                         Subheader (lit ''Ask a Question''),
                         Markdown (lit ''### Answer:''),
                         Info (answer r1),
                         Caption_confidence (confidence r1)])"
    by (simp add: r1)
  with s have i: "Info (lit ''blue'') \<in> set (screen (snd (main_with_text
                   (\<lambda>task model tokenizer. Inr sample_changing_model)
                   (sample_widgets True) (lit ''The sky is blue.'') empty_world)))"
    using set_mono_prefix by blast
  show ?thesis
    using h c c2 i
    by (simp add: r2 history_list_def empty_world_def sample_widgets_def lit_def)
qed

text \<open>
  A model that raises what is not an instance of \<open>Exception\<close> ends the run at its first
  call: with the button not pressed, that is the call of line 170, and the new question
  is not recorded.
\<close>

lemma main_with_text_KeyboardInterrupt:
  "main_with_text
     (\<lambda>task model tokenizer. Inr (\<lambda>calls q c. Inl (BaseExc ''KeyboardInterrupt'' [])))
     (sample_widgets False) (lit ''The sky is blue.'') empty_world =
   (Inl (BaseExc ''KeyboardInterrupt'' []),
    \<lparr>history = Some [], last_question = None,
     screen = [Text_area (lit ''PDF Content'') (lit ''The sky is blue.''),
               Success (lit ''Ready to answer questions!''),
               Subheader (lit ''Ask a Question'')],
     model_calls = [(lit ''What color is the sky?'', lit ''The sky is blue.'')]\<rparr>)"
  by (simp add: main_with_text_def lookup_load_qa_model lookup_answer_question call_loader_def
      load_qa_model_def answer_button_def update_history_def and_then_def call_answerer_def
      answer_question_eq render_def sample_widgets_def empty_world_def Let_def lit_def)

section \<open>Properties of the history shown\<close>

lemma map_snd_filter_enumerate:
  "map snd (filter (\<lambda>(i, x). P x) (enumerate n xs)) = filter P xs"
  by (induction xs arbitrary: n) simp_all

lemma map_snd_history_rows:
  "map snd (history_rows h) =
     filter (\<lambda>qa. truthy (h_answer qa)) (rev (drop (length h - 5) h))"
proof -
  have "map snd (history_rows h) =
          map snd (filter (\<lambda>(i, qa). truthy (h_answer qa)) (recent h))"
    by (simp add: history_rows_def case_prod_unfold comp_def)
  then show ?thesis
    by (simp add: recent_def map_snd_filter_enumerate)
qed

text \<open>
  The history of the sample, with an entry whose answer is empty, is what two runs leave
  when the model answers the second question with the empty string.
\<close>

lemma sample_history_reached:
  "history
     (snd (main_with_text
        (\<lambda>task model tokenizer.
           Inr (\<lambda>calls question context.
                  Inr \<lparr>m_answer = (if calls = [] then lit ''blue'' else []),
                       m_score = Fin (1 / 2)\<rparr>))
        \<lparr>uploaded_file = None, user_question = lit ''Why?'', button = False\<rparr>
        (lit ''The sky is blue.'')
        (snd (main_with_text
           (\<lambda>task model tokenizer.
              Inr (\<lambda>calls question context.
                     Inr \<lparr>m_answer = (if calls = [] then lit ''blue'' else []),
                          m_score = Fin (1 / 2)\<rparr>))
           \<lparr>uploaded_file = None, user_question = lit ''What color is the sky?'', button = False\<rparr>
           (lit ''The sky is blue.'') empty_world)))) =
   Some sample_history"
proof -
  let ?m = "\<lambda>calls question context.
              Inr \<lparr>m_answer = (if calls = [] then lit ''blue'' else []), m_score = Fin (1 / 2)\<rparr>"
  have load: "load_qa_model (\<lambda>task model tokenizer. Inr ?m) = Inr ?m"
    by (simp add: load_qa_model_def)
  have exn: "\<forall>calls question context e.
               ?m calls question context = Inl e \<longrightarrow> is_Exception e"
    by simp
  show ?thesis
    by (simp add: main_with_text_eq [OF load exn] Let_def history_list_def empty_world_def
        qa_result_of_def sample_history_def lit_def)
qed

text \<open>
  Claim C9 as stated fails: of the history of two entries whose second answer is empty,
  the loop visits the second entry and then the first, and only the first is shown. What
  is shown is not the reverse of a suffix of the history.
\<close>

theorem history_rows_not_reversed_suffix:
  "rev (drop (length sample_history - 5) sample_history) =
     [\<lparr>h_question = lit ''Why?'', h_answer = Some []\<rparr>,
      \<lparr>h_question = lit ''What color is the sky?'', h_answer = Some (lit ''blue'')\<rparr>] \<and>
   map snd (history_rows sample_history) =
     [\<lparr>h_question = lit ''What color is the sky?'', h_answer = Some (lit ''blue'')\<rparr>] \<and>
   \<not> suffix (rev (map snd (history_rows sample_history))) sample_history"
  by (simp add: map_snd_history_rows sample_history_def truthy_def lit_def suffix_Cons)

text \<open>
  Claim C9, amended. For every history, the loop of the recent-history view visits at
  most 5 entries: exactly the last \<open>min 5 n\<close> entries of the full history, a suffix of it,
  in reverse chronological order. The view shows those of them whose answer is present
  and not empty, in that order: at most 5 entries, and the whole reversed suffix when
  every answer in it is present and not empty.
\<close>

theorem history_rows_recent:
  "map snd (recent h) = rev (drop (length h - 5) h) \<and>
   suffix (drop (length h - 5) h) h \<and>
   length (drop (length h - 5) h) = min 5 (length h) \<and>
   map snd (history_rows h) =
     filter (\<lambda>qa. truthy (h_answer qa)) (rev (drop (length h - 5) h)) \<and>
   length (history_rows h) \<le> 5 \<and>
   ((\<forall>qa \<in> set (drop (length h - 5) h). truthy (h_answer qa)) \<longrightarrow>
      map snd (history_rows h) = rev (drop (length h - 5) h))"
proof -
  have len: "length (drop (length h - 5) h) = min 5 (length h)"
    by auto
  have "length (history_rows h) = length (map snd (history_rows h))"
    by simp
  also have "\<dots> \<le> length (rev (drop (length h - 5) h))"
    unfolding map_snd_history_rows by (rule length_filter_le)
  finally have "length (history_rows h) \<le> 5"
    using len by simp
  then show ?thesis
    using len by (simp add: map_snd_history_rows recent_def suffix_drop)
qed

theorem history_rows_recent_witness:
  "length sample_long_history = 6 \<and>
   map snd (history_rows sample_long_history) =
     [\<lparr>h_question = lit ''Q6'', h_answer = Some (lit ''A6'')\<rparr>,
      \<lparr>h_question = lit ''Q5'', h_answer = Some (lit ''A5'')\<rparr>,
      \<lparr>h_question = lit ''Q4'', h_answer = Some (lit ''A4'')\<rparr>,
      \<lparr>h_question = lit ''Q3'', h_answer = Some (lit ''A3'')\<rparr>,
      \<lparr>h_question = lit ''Q2'', h_answer = Some (lit ''A2'')\<rparr>]"
proof -
  have d: "drop (length sample_long_history - 5) sample_long_history =
     [\<lparr>h_question = lit ''Q2'', h_answer = Some (lit ''A2'')\<rparr>,
      \<lparr>h_question = lit ''Q3'', h_answer = Some (lit ''A3'')\<rparr>,
      \<lparr>h_question = lit ''Q4'', h_answer = Some (lit ''A4'')\<rparr>,
      \<lparr>h_question = lit ''Q5'', h_answer = Some (lit ''A5'')\<rparr>,
      \<lparr>h_question = lit ''Q6'', h_answer = Some (lit ''A6'')\<rparr>]"
    by (simp add: sample_long_history_def)
  have t: "\<forall>qa \<in> set (drop (length sample_long_history - 5) sample_long_history).
             truthy (h_answer qa)"
    unfolding d by (simp add: truthy_def lit_def)
  with history_rows_recent [of sample_long_history] show ?thesis
    by (simp add: d) (simp add: sample_long_history_def)
qed

section \<open>Properties of the confidence\<close>

text \<open>
  Rounding to an integer stays between the integers around its argument, so it does not
  cross an integer bound.
\<close>

lemma rne_bounds: "\<lfloor>y\<rfloor> \<le> rne y \<and> rne y \<le> \<lfloor>y\<rfloor> + 1"
  by (simp add: rne_def Let_def)

lemma rne_of_int [simp]: "rne (of_int n) = n"
  by (simp add: rne_def)

lemma rne_le:
  assumes "y \<le> of_int n"
  shows "rne y \<le> n"
proof (cases "y = of_int n")
  case True
  then show ?thesis by simp
next
  case False
  with assms have "y < of_int n" by simp
  then have "\<lfloor>y\<rfloor> < n" by (simp add: floor_less_iff)
  with rne_bounds [of y] show ?thesis by linarith
qed

lemma rne_ge:
  assumes "of_int n \<le> y"
  shows "n \<le> rne y"
proof -
  from assms have "n \<le> \<lfloor>y\<rfloor>" by (simp add: le_floor_iff)
  with rne_bounds [of y] show ?thesis by linarith
qed

text \<open>The search for the binade stops at or below an exponent whose binade bounds \<open>a\<close>.\<close>

lemma binade_from_le:
  assumes "a < 2 powi (b + 1)" and "e \<le> b"
  shows "binade_from a e \<le> b"
  using assms
proof (induction a e rule: binade_from.induct)
  case (1 a e)
  show ?case
  proof (cases "a < 2 powi (e + 1)")
    case True
    with 1(3) show ?thesis by (simp add: binade_from.simps [of a e])
  next
    case False
    with 1(2) have "(2 :: rat) powi (e + 1) < 2 powi (b + 1)" by simp
    then have "e + 1 < b + 1"
      using power_int_increasing [of "b + 1" "e + 1" "2 :: rat"] by (cases "e + 1 < b + 1") auto
    then have "binade_from a (e + 1) \<le> b"
      using 1(1) [OF False 1(2)] by simp
    with False show ?thesis by (simp add: binade_from.simps [of a e])
  qed
qed

text \<open>
  \<open>100\<close> is a whole number of units in the last place in every binade up to its own, so
  rounding a rational of \<open>[0, 100]\<close> to a float stays in \<open>[0, 100]\<close>.
\<close>

lemma fl_bounds:
  assumes "0 \<le> q" and "q \<le> 100"
  shows "\<exists>r. fl q = Fin r \<and> 0 \<le> r \<and> r \<le> 100"
proof (cases "q = 0")
  case True
  then show ?thesis by (simp add: fl_def)
next
  case False
  with assms(1) have pos: "0 < q" by simp
  define e where "e = binade q"
  define u :: rat where "u = 2 powi (e - 52)"
  define m where "m = rne (q / u)"
  have "q < 2 powi (6 + 1)"
    using assms(2) by simp
  then have e6: "e \<le> 6"
    unfolding e_def binade_def by (rule binade_from_le) simp
  have u0: "0 < u"
    unfolding u_def by (rule zero_less_power_int) simp
  have "100 / u = 100 * 2 powi (52 - e)"
    unfolding u_def by (simp add: power_int_diff)
  also have "\<dots> = of_int (100 * 2 ^ nat (52 - e))"
    using e6 by (simp add: power_int_def)
  finally have cap: "100 / u = of_int (100 * 2 ^ nat (52 - e))" .
  have "q / u \<le> 100 / u"
    using assms(2) u0 by (simp add: divide_right_mono)
  then have "m \<le> 100 * 2 ^ nat (52 - e)"
    unfolding m_def cap by (rule rne_le)
  then have "(of_int m :: rat) \<le> of_int (100 * 2 ^ nat (52 - e))"
    by (simp only: of_int_le_iff)
  then have "of_int m \<le> 100 / u"
    by (simp only: cap)
  then have hi: "of_int m * u \<le> 100"
    using u0 by (simp add: pos_le_divide_eq)
  have "of_int 0 \<le> q / u"
    using pos u0 by simp
  then have "0 \<le> m"
    unfolding m_def by (rule rne_ge)
  then have lo: "0 \<le> of_int m * u"
    using u0 by simp
  have "\<not> (2 :: rat) ^ 1024 \<le> of_int m * u"
    using hi by simp
  then have "fl q = Fin (of_int m * u)"
    using pos False by (simp add: fl_def Let_def e_def u_def m_def)
  with lo hi show ?thesis by blast
qed

lemma round2_bounds:
  assumes "0 \<le> p" and "p \<le> 100"
  shows "\<exists>c k. round2 (Fin p) = Fin c \<and> 0 \<le> c \<and> c \<le> 100 \<and>
               fl (of_int k / 100) = Fin c \<and> 0 \<le> k \<and> k \<le> 10000"
proof -
  define k where "k = rne (p * 100)"
  have "of_int 0 \<le> p * 100" using assms(1) by simp
  then have k0: "0 \<le> k" unfolding k_def by (rule rne_ge)
  have "p * 100 \<le> of_int 10000" using assms(2) by simp
  then have k1: "k \<le> 10000" unfolding k_def by (rule rne_le)
  have "0 \<le> (of_int k :: rat) / 100" using k0 by simp
  moreover have "(of_int k :: rat) / 100 \<le> 100" using k1 by simp
  ultimately obtain c where "fl (of_int k / 100) = Fin c" "0 \<le> c" "c \<le> 100"
    using fl_bounds by blast
  moreover have "round2 (Fin p) = fl (of_int k / 100)"
    using assms(1) by (simp add: k_def)
  ultimately show ?thesis using k0 k1 by auto
qed

lemma confidence_of_score:
  assumes "0 \<le> s" and "s \<le> 1"
  shows "\<exists>c k. round2 (float_mul (Fin s) (Fin 100)) = Fin c \<and> 0 \<le> c \<and> c \<le> 100 \<and>
               fl (of_int k / 100) = Fin c \<and> 0 \<le> k \<and> k \<le> 10000"
proof -
  have "0 \<le> s * 100" "s * 100 \<le> 100" using assms by simp_all
  then obtain p where "fl (s * 100) = Fin p" "0 \<le> p" "p \<le> 100"
    using fl_bounds by blast
  with round2_bounds [of p] show ?thesis by simp
qed

text \<open>A whole number below \<open>2 ^ 53\<close> is a float: rounding leaves it as it is.\<close>

lemma fl_of_int:
  assumes "0 \<le> n" and "n < 2 ^ 53"
  shows "fl (of_int n) = Fin (of_int n)"
proof (cases "n = 0")
  case True
  then show ?thesis by (simp add: fl_def)
next
  case False
  with assms(1) have pos: "0 < n" by simp
  define e where "e = binade (of_int n)"
  define u :: rat where "u = 2 powi (e - 52)"
  have "(of_int n :: rat) < of_int (2 ^ 53)"
    using assms(2) by (simp only: of_int_less_iff)
  then have "(of_int n :: rat) < 2 powi (52 + 1)"
    by simp
  then have e52: "e \<le> 52"
    unfolding e_def binade_def by (rule binade_from_le) simp
  have u0: "0 < u"
    unfolding u_def by (rule zero_less_power_int) simp
  have "1 / u = 2 powi (52 - e)"
    unfolding u_def by (simp add: power_int_diff)
  also have "\<dots> = of_int (2 ^ nat (52 - e))"
    using e52 by (simp add: power_int_def)
  finally have inv: "1 / u = of_int (2 ^ nat (52 - e))" .
  have "of_int n / u = of_int n * (1 / u)"
    by simp
  also have "\<dots> = of_int (n * 2 ^ nat (52 - e))"
    by (simp only: inv of_int_mult)
  finally have q: "of_int n / u = of_int (n * 2 ^ nat (52 - e))" .
  have "of_int (rne (of_int n / u)) * u = of_int n / u * u"
    by (simp only: q rne_of_int)
  also have "\<dots> = of_int n"
    using u0 by simp
  finally have r: "of_int (rne (of_int n / u)) * u = of_int n" .
  have "(of_int n :: rat) < of_int (2 ^ 1024)"
    using assms(2) by (simp only: of_int_less_iff) simp
  then have small: "\<not> (2 :: rat) ^ 1024 \<le> of_int n"
    by simp
  have abs: "\<bar>of_int n :: rat\<bar> = of_int n"
    using pos by simp
  show ?thesis
    using pos small
    by (simp add: fl_def Let_def abs e_def [symmetric] u_def [symmetric] r del: of_int_abs)
qed

text \<open>The scores \<open>0\<close> and \<open>1\<close> give the confidences \<open>0.0\<close> and \<open>100.0\<close>.\<close>

lemma confidence_of_score_0: "round2 (float_mul (Fin 0) (Fin 100)) = Fin 0"
  by (simp add: fl_def rne_def)

lemma confidence_of_score_1: "round2 (float_mul (Fin 1) (Fin 100)) = Fin 100"
proof -
  have f: "fl 100 = Fin 100"
    using fl_of_int [of 100] by simp
  have "rne (100 * 100) = 10000"
    using rne_of_int [of 10000] by simp
  then show ?thesis
    by (simp add: f)
qed

text \<open>
  Claim C6. For every result that \<open>answer_question\<close> returns when the score of the model,
  if the model returns, is in \<open>[0, 1]\<close>: the confidence is \<open>round(score * 100, 2)\<close> on
  success and the integer \<open>0\<close> on failure; it is in \<open>[0, 100]\<close>; and it is rounded to two
  decimal places: the float nearest to \<open>k / 100\<close> for a whole number \<open>k\<close> of hundredths.
\<close>

theorem answer_question_confidence:
  assumes "fst (answer_question question context qa_model calls) = Inr r"
    and "\<forall>out. qa_model calls question (take 1536 context) = Inr out \<longrightarrow>
           (\<exists>s. m_score out = Fin s \<and> 0 \<le> s \<and> s \<le> 1)"
  shows "(case qa_model calls question (take 1536 context) of
            Inr out \<Rightarrow> confidence r = PyFloat (round2 (float_mul (m_score out) (Fin 100)))
          | Inl e \<Rightarrow> confidence r = PyInt 0) \<and>
         (confidence r = PyInt 0 \<or>
          (\<exists>c k. confidence r = PyFloat (Fin c) \<and> 0 \<le> c \<and> c \<le> 100 \<and>
                 0 \<le> k \<and> k \<le> 10000 \<and> fl (of_int k / 100) = Fin c))"
proof (cases "qa_model calls question (take 1536 context)")
  case (Inl e)
  with assms(1) show ?thesis
    by (auto simp: answer_question_eq split: if_splits)
next
  case (Inr out)
  with assms(2) obtain s where s: "m_score out = Fin s" "0 \<le> s" "s \<le> 1"
    by blast
  from assms(1) Inr have c: "confidence r = PyFloat (round2 (float_mul (m_score out) (Fin 100)))"
    by (auto simp: answer_question_eq)
  from confidence_of_score [OF s(2,3)] obtain c' k where
    "round2 (float_mul (Fin s) (Fin 100)) = Fin c'" "0 \<le> c'" "c' \<le> 100"
    "fl (of_int k / 100) = Fin c'" "0 \<le> k" "k \<le> 10000"
    by blast
  with c s(1) Inr show ?thesis
    by auto
qed

theorem answer_question_confidence_witness:
  "confidence (qa_result_of (Inr \<lparr>m_answer = lit ''blue'', m_score = Fin 1\<rparr>)) =
     PyFloat (Fin 100) \<and>
   fst (answer_question (lit ''What color is the sky?'') (lit ''The sky is blue.'')
          (\<lambda>calls question context. Inr \<lparr>m_answer = lit ''blue'', m_score = Fin 1\<rparr>) []) =
     Inr (qa_result_of (Inr \<lparr>m_answer = lit ''blue'', m_score = Fin 1\<rparr>))"
proof -
  let ?m = "\<lambda>calls question context. Inr \<lparr>m_answer = lit ''blue'', m_score = Fin 1\<rparr>"
  let ?r = "qa_result_of (Inr \<lparr>m_answer = lit ''blue'', m_score = Fin 1\<rparr>)"
  have a: "fst (answer_question (lit ''What color is the sky?'') (lit ''The sky is blue.'')
                  ?m []) = Inr ?r"
    by (simp add: answer_question_eq qa_result_of_def)
  have h: "\<forall>out. ?m [] (lit ''What color is the sky?'') (take 1536 (lit ''The sky is blue.'')) =
                   Inr out \<longrightarrow> (\<exists>s. m_score out = Fin s \<and> 0 \<le> s \<and> s \<le> 1)"
    by auto
  from answer_question_confidence [OF a h]
  have "confidence ?r = PyFloat (round2 (float_mul (Fin 1) (Fin 100)))"
    by simp
  then have "confidence ?r = PyFloat (Fin 100)"
    by (simp only: confidence_of_score_1)
  with a show ?thesis
    by blast
qed

end
